theory Spec2Isabelle
  imports Complex_Main "HOL-Library.Word"
begin

section \<open>Hydrant: constants and data model (include/hydrant.h, include/hydrant\_types.h)\<close>

text \<open>
  \<open>size_t\<close> is a 64-bit unsigned integer whose arithmetic wraps around; \<open>time_t\<close> is a
  count of seconds.  The \<open>int\<close> counters of a pool slot are modelled as unbounded
  integers: every increment of the source is guarded far below \<open>INT_MAX\<close>.
  A \<open>PGconn *\<close> is an opaque handle; \<open>None\<close> is the null pointer.
  A \<open>PoolConnection *\<close> into \<open>ctx->pool\<close> is the index of the slot.
\<close>

type_synonym size_t = "64 word"
type_synonym time_t = int
type_synonym PGconn = nat

definition MAX_RECOVERY_ATTEMPTS :: int where "MAX_RECOVERY_ATTEMPTS = 3"
definition CONNECTION_DEAD_THRESHOLD :: int where "CONNECTION_DEAD_THRESHOLD = 5"
definition MAX_BACKOFF_ATTEMPTS :: int where "MAX_BACKOFF_ATTEMPTS = 10"
definition MAX_POOL_SIZE :: nat where "MAX_POOL_SIZE = 10"
definition RECOVERY_BACKOFF_BASE_MS :: int where "RECOVERY_BACKOFF_BASE_MS = 100"
definition MAX_ERROR_LENGTH :: nat where "MAX_ERROR_LENGTH = 1 * 1024"
definition COPY_CHUNK_SIZE :: size_t where "COPY_CHUNK_SIZE = 8 * 1024"
definition MIN_BATCH_SIZE :: size_t where "MIN_BATCH_SIZE = 64 * 1024"
definition DEFAULT_BATCH_SIZE :: size_t where "DEFAULT_BATCH_SIZE = 1 * 1024 * 1024"
definition MAX_BATCH_SIZE :: size_t where "MAX_BATCH_SIZE = 10 * 1024 * 1024"

datatype ConnectionState =
  CONN_AVAILABLE | CONN_IN_USE | CONN_DEAD | CONN_PERMANENT_FAILURE

record PoolConnection =
  conn :: "PGconn option"
  state :: ConnectionState
  last_used :: time_t
  failed_attempts :: int
  recovery_attempts :: int
  next_recovery_attempt :: time_t
  last_error :: string

record BatchStats =
  processed :: size_t
  failed :: size_t
  timestamp :: time_t

record HydrantConfig =
  db_conn_string :: "string option"
  batch_size :: size_t
  max_retries :: int
  retry_delay_ms :: int
  require_ssl :: bool

text \<open>
  The anonymous \<open>stats\<close> struct of the context.  \<open>avg_batch_time_ms\<close> is a \<open>double\<close>
  in the source; it is kept here as a real number (no rounding).
\<close>

record RunningStats =
  total_bytes :: size_t
  batches_processed :: size_t
  copy_operations :: size_t
  errors :: size_t
  connection_resets :: size_t
  connection_failures :: size_t
  avg_batch_time_ms :: real
  start_time :: time_t
  last_batch :: time_t

text \<open>
  One record written by \<open>structured_log(level, format, ...)\<close>: the level, the format
  string and the arguments, in call order.
\<close>

datatype log_arg = Str string | Num int

type_synonym log_record = "string \<times> string \<times> log_arg list"

text \<open>
  The context.  The mutexes, the condition variable, the worker handles and
  \<open>source_id\<close> carry no data the functions below compute with and are left out;
  \<open>stderr_log\<close> is the sequence of records \<open>structured_log\<close> has written so far.
\<close>

record HydrantContext =
  config :: HydrantConfig
  shutdown_requested :: bool
  pool :: "PoolConnection list"
  healthy_connections :: size_t
  batch_buffer :: "8 word list"
  current_batch_pos :: size_t
  batch_stats :: "BatchStats list"
  batch_stats_size :: size_t
  current_batch :: size_t
  stats :: RunningStats
  stderr_log :: "log_record list"

definition structured_log ::
  "string \<Rightarrow> string \<Rightarrow> log_arg list \<Rightarrow> HydrantContext \<Rightarrow> HydrantContext" where
  "structured_log level format args ctx =
     ctx\<lparr>stderr_log := stderr_log ctx @ [(level, format, args)]\<rparr>"

text \<open>\<open>snprintf(dst, MAX_ERROR_LENGTH, ...)\<close> keeps at most \<open>MAX_ERROR_LENGTH - 1\<close> characters.\<close>

definition snprintf_err :: "string \<Rightarrow> string" where
  "snprintf_err s = take (MAX_ERROR_LENGTH - 1) s"

section \<open>Batch accumulator: append (src/batch.c, add\_to\_batch)\<close>

text \<open>\<open>memcpy(buf + off, src, n)\<close> on a buffer held as a list of bytes.\<close>

definition memcpy_at :: "8 word list \<Rightarrow> nat \<Rightarrow> 8 word list \<Rightarrow> nat \<Rightarrow> 8 word list" where
  "memcpy_at buf off src n = take off buf @ take n src @ drop (off + n) buf"

definition add_to_batch ::
  "HydrantContext \<Rightarrow> 8 word list \<Rightarrow> size_t \<Rightarrow> bool \<times> HydrantContext" where
  "add_to_batch ctx data sz =
     (if current_batch_pos ctx + sz > batch_size (config ctx) then (False, ctx)
      else (True,
            ctx\<lparr>batch_buffer :=
                   memcpy_at (batch_buffer ctx) (unat (current_batch_pos ctx)) data (unat sz),
                 current_batch_pos := current_batch_pos ctx + sz\<rparr>))"

section \<open>The library and the clock, as seen by one call\<close>

text \<open>
  What libpq, the clock and the other threads answer during a call is a parameter of the
  model.  \<open>PQconnectdb env i\<close> is the handle a connect issued for slot \<open>i\<close> returns;
  \<open>PQputCopyData env k\<close> is the return value of the \<open>k\<close>-th put-chunk call of a flush;
  \<open>wakeups env\<close> lists, for each return of \<open>pthread_cond_timedwait\<close> before the
  deadline, what the other threads did to the pool slots while the pool lock was released
  (the deadline is absolute, so the list is finite and is followed by \<open>ETIMEDOUT\<close>).
  The mutexes are not part of the state: each function is modelled as it runs once it
  holds its locks.  The one place where a function locks a mutex that its own caller
  already holds is in \<open>return_connection\<close>, and is modelled there by its outcome.
\<close>

record pq_env =
  now :: time_t
  PQconnectdb :: "nat \<Rightarrow> PGconn option"
  PQstatus_ok :: "PGconn \<Rightarrow> bool"
  PQsslInUse :: "PGconn \<Rightarrow> bool"
  PQprepare_ok :: "PGconn \<Rightarrow> bool"
  PQerrorMessage :: "PGconn \<Rightarrow> string"
  wakeups :: "(PoolConnection list \<Rightarrow> PoolConnection list) list"
  begin_ok :: bool
  copy_start_ok :: bool
  PQputCopyData :: "nat \<Rightarrow> int"
  PQputCopyEnd_ok :: bool
  commit_ok :: bool

text \<open>libpq's answers for a null handle are fixed: bad status, no SSL, no result.\<close>

definition conn_ok :: "pq_env \<Rightarrow> PGconn option \<Rightarrow> bool" where
  "conn_ok env c = (case c of None \<Rightarrow> False | Some h \<Rightarrow> PQstatus_ok env h)"

definition ssl_in_use :: "pq_env \<Rightarrow> PGconn option \<Rightarrow> bool" where
  "ssl_in_use env c = (case c of None \<Rightarrow> False | Some h \<Rightarrow> PQsslInUse env h)"

definition prepare_ok :: "pq_env \<Rightarrow> PGconn option \<Rightarrow> bool" where
  "prepare_ok env c = (case c of None \<Rightarrow> False | Some h \<Rightarrow> PQprepare_ok env h)"

definition error_message :: "pq_env \<Rightarrow> PGconn option \<Rightarrow> string" where
  "error_message env c =
     (case c of None \<Rightarrow> ''connection pointer is NULL'' | Some h \<Rightarrow> PQerrorMessage env h)"

section \<open>Connection pool (src/connection.c)\<close>

text \<open>
  \<open>ctx->pool\<close> is an array of \<open>MAX_POOL_SIZE\<close> slots, held as a list of that length.
\<close>

fun first_index :: "('a \<Rightarrow> bool) \<Rightarrow> 'a list \<Rightarrow> nat option" where
  "first_index P [] = None"
| "first_index P (x # xs) =
     (if P x then Some 0 else map_option Suc (first_index P xs))"

definition set_slot :: "nat \<Rightarrow> PoolConnection \<Rightarrow> HydrantContext \<Rightarrow> HydrantContext" where
  "set_slot i pc ctx = ctx\<lparr>pool := (pool ctx)[i := pc]\<rparr>"

text \<open>The scan returns the first slot whose handle is the given pointer, or \<open>NULL\<close>.\<close>

definition find_pool_connection :: "HydrantContext \<Rightarrow> PGconn option \<Rightarrow> nat option" where
  "find_pool_connection ctx c =
     first_index (\<lambda>pc. conn pc = c) (take MAX_POOL_SIZE (pool ctx))"

definition mark_connection_dead :: "HydrantContext \<Rightarrow> nat \<Rightarrow> string \<Rightarrow> HydrantContext" where
  "mark_connection_dead ctx i error =
     (let pc = pool ctx ! i in
      if state pc \<noteq> CONN_DEAD \<and> state pc \<noteq> CONN_PERMANENT_FAILURE then
        structured_log ''WARN'' ''Connection marked dead: %s'' [Str error]
          (set_slot i (pc\<lparr>state := CONN_DEAD, last_error := snprintf_err error\<rparr>)
             (ctx\<lparr>healthy_connections := healthy_connections ctx - 1\<rparr>))
      else ctx)"

text \<open>
  The delay, in seconds, that the connect-failure branch adds to \<open>now\<close>:
  \<open>(RECOVERY_BACKOFF_BASE_MS << min(attempts, MAX_BACKOFF_ATTEMPTS)) / 1000\<close>,
  an \<open>int\<close> shift followed by an \<open>int\<close> division (both operands non-negative).
\<close>

definition backoff_seconds :: "int \<Rightarrow> int" where
  "backoff_seconds attempts =
     push_bit (nat (if attempts < MAX_BACKOFF_ATTEMPTS then attempts else MAX_BACKOFF_ATTEMPTS))
       RECOVERY_BACKOFF_BASE_MS div 1000"

definition recover_dead_connection ::
  "pq_env \<Rightarrow> HydrantContext \<Rightarrow> nat \<Rightarrow> bool \<times> HydrantContext" where
  "recover_dead_connection env ctx i =
     (let pc = pool ctx ! i in
      if now env < next_recovery_attempt pc then (False, ctx)
      else if recovery_attempts pc \<ge> MAX_RECOVERY_ATTEMPTS then
        (if state pc \<noteq> CONN_PERMANENT_FAILURE then
           (False,
            set_slot i (pc\<lparr>state := CONN_PERMANENT_FAILURE\<rparr>)
              (structured_log ''ERROR''
                 ''Connection permanently failed after %d recovery attempts. Last error: %s''
                 [Num (recovery_attempts pc), Str (last_error pc)] ctx))
         else (False, ctx))
      else
        let ctx1 = structured_log ''INFO'' ''Attempting to recover connection (attempt %d/%d)''
                     [Num (recovery_attempts pc + 1), Num MAX_RECOVERY_ATTEMPTS] ctx;
            c = PQconnectdb env i;
            pc1 = pc\<lparr>conn := c\<rparr>
        in
        if \<not> conn_ok env c then
          let attempts = recovery_attempts pc1 + 1;
              pc2 = pc1\<lparr>recovery_attempts := attempts,
                        last_error := snprintf_err (''Recovery failed: '' @ error_message env c),
                        next_recovery_attempt := now env + backoff_seconds attempts\<rparr>;
              ctx2 = set_slot i pc2 ctx1
          in (False,
              ctx2\<lparr>stats := (stats ctx2)\<lparr>connection_failures :=
                                           connection_failures (stats ctx2) + 1\<rparr>\<rparr>)
        else if require_ssl (config ctx) \<and> \<not> ssl_in_use env c then
          (False,
           set_slot i
             (pc1\<lparr>last_error := snprintf_err ''Recovery failed: SSL required but not in use'',
                  recovery_attempts := recovery_attempts pc1 + 1\<rparr>) ctx1)
        else if \<not> prepare_ok env c then
          (False,
           set_slot i
             (pc1\<lparr>last_error :=
                    snprintf_err (''Failed to prepare statement: '' @ error_message env c),
                  recovery_attempts := recovery_attempts pc1 + 1\<rparr>) ctx1)
        else
          let ctx2 = set_slot i
                       (pc1\<lparr>failed_attempts := 0, recovery_attempts := 0,
                            next_recovery_attempt := 0, state := CONN_AVAILABLE\<rparr>) ctx1;
              ctx3 = ctx2\<lparr>stats := (stats ctx2)\<lparr>connection_resets :=
                                                  connection_resets (stats ctx2) + 1\<rparr>,
                          healthy_connections := healthy_connections ctx2 + 1\<rparr>
          in (True, structured_log ''INFO'' ''Successfully recovered connection'' [] ctx3))"

text \<open>The test of the first pass and of the rescan after a wake-up.\<close>

definition available_ok :: "pq_env \<Rightarrow> PoolConnection \<Rightarrow> bool" where
  "available_ok env pc \<longleftrightarrow> state pc = CONN_AVAILABLE \<and> conn_ok env (conn pc)"

text \<open>Hand slot \<open>i\<close> to the caller: \<open>IN_USE\<close>, stamped, and its handle returned.\<close>

definition take_slot :: "pq_env \<Rightarrow> HydrantContext \<Rightarrow> nat \<Rightarrow> PGconn option \<times> HydrantContext" where
  "take_slot env ctx i =
     (let pc = pool ctx ! i in
      (conn pc, set_slot i (pc\<lparr>state := CONN_IN_USE, last_used := now env\<rparr>) ctx))"

text \<open>Second pass: try each \<open>DEAD\<close> slot in index order, stop at the first recovery.\<close>

fun second_pass :: "pq_env \<Rightarrow> nat list \<Rightarrow> HydrantContext \<Rightarrow> nat option \<times> HydrantContext" where
  "second_pass env [] ctx = (None, ctx)"
| "second_pass env (i # js) ctx =
     (if state (pool ctx ! i) = CONN_DEAD then
        (case recover_dead_connection env ctx i of
           (True, ctx') \<Rightarrow> (Some i, ctx')
         | (False, ctx') \<Rightarrow> second_pass env js ctx')
      else second_pass env js ctx)"

text \<open>
  The wait loop: every return of the timed wait other than \<open>ETIMEDOUT\<close> rescans; the
  deadline is computed once before the loop and never renewed, and \<open>ETIMEDOUT\<close> (the end
  of the list of wake-ups) leaves the loop.
\<close>

fun wait_loop ::
  "pq_env \<Rightarrow> (PoolConnection list \<Rightarrow> PoolConnection list) list \<Rightarrow> HydrantContext
     \<Rightarrow> PGconn option \<times> HydrantContext" where
  "wait_loop env [] ctx = (None, ctx)"
| "wait_loop env (w # ws) ctx =
     (let ctx' = ctx\<lparr>pool := w (pool ctx)\<rparr> in
      case first_index (available_ok env) (take MAX_POOL_SIZE (pool ctx')) of
        Some i \<Rightarrow> take_slot env ctx' i
      | None \<Rightarrow> wait_loop env ws ctx')"

text \<open>
  The pools that the rescans of the wait loop look at, one per wake-up, when none of
  them finds a slot: each wake-up shows the pool as the other threads left it.
\<close>

fun pools_seen ::
  "(PoolConnection list \<Rightarrow> PoolConnection list) list \<Rightarrow> PoolConnection list
     \<Rightarrow> PoolConnection list list" where
  "pools_seen [] p = []"
| "pools_seen (w # ws) p = w p # pools_seen ws (w p)"

definition get_connection :: "pq_env \<Rightarrow> HydrantContext \<Rightarrow> PGconn option \<times> HydrantContext" where
  "get_connection env ctx =
     (case first_index (available_ok env) (take MAX_POOL_SIZE (pool ctx)) of
        Some i \<Rightarrow> take_slot env ctx i
      | None \<Rightarrow>
          (case second_pass env [0..<MAX_POOL_SIZE] ctx of
             (Some i, ctx') \<Rightarrow> take_slot env ctx' i
           | (None, ctx') \<Rightarrow> wait_loop env (wakeups env) ctx'))"

text \<open>
  A run of the source that dereferences a null slot pointer, indexes the stats ring out
  of bounds or divides by zero has no defined result, and a thread that locks a mutex it
  already holds never comes back from the call; the model returns the fault.
\<close>

datatype fault = NullPointerDereference | IndexOutOfBounds | DivisionByZero | SelfDeadlock

text \<open>
  \<open>return_connection\<close>.  At the dead threshold the source calls
  \<open>mark_connection_dead\<close> while it holds \<open>pool_mutex\<close>; that function locks
  \<open>stats_mutex\<close> and then \<open>pool_mutex\<close> again, a mutex initialised with default
  attributes, so the thread blocks there for good.  Up to that point the function has
  incremented \<open>failed_attempts\<close> and written \<open>last_error\<close>; nothing observes the
  context of a call that does not return, and the model returns \<open>SelfDeadlock\<close>.
\<close>

definition return_connection ::
  "pq_env \<Rightarrow> HydrantContext \<Rightarrow> PGconn option \<Rightarrow> bool \<Rightarrow> fault + HydrantContext" where
  "return_connection env ctx c had_error =
     (case find_pool_connection ctx c of
        None \<Rightarrow> Inr ctx
      | Some i \<Rightarrow>
          let pc = pool ctx ! i in
          if had_error then
            let pc1 = pc\<lparr>failed_attempts := failed_attempts pc + 1,
                         last_error := snprintf_err (error_message env c)\<rparr>
            in if failed_attempts pc1 \<ge> CONNECTION_DEAD_THRESHOLD
               then Inl SelfDeadlock
               else Inr (set_slot i (pc1\<lparr>state := CONN_AVAILABLE\<rparr>) ctx)
          else Inr (set_slot i (pc\<lparr>state := CONN_AVAILABLE, failed_attempts := 0\<rparr>) ctx))"

text \<open>The number of slots that are neither \<open>DEAD\<close> nor \<open>PERMANENT_FAILURE\<close>.\<close>

definition healthy_count :: "HydrantContext \<Rightarrow> nat" where
  "healthy_count ctx =
     length (filter (\<lambda>pc. state pc \<noteq> CONN_DEAD \<and> state pc \<noteq> CONN_PERMANENT_FAILURE)
               (pool ctx))"

section \<open>Flush and the bulk-copy loop (src/batch.c, flush\_batch)\<close>

text \<open>\<open>mark_connection_dead(ctx, find_pool_connection(ctx, conn), error)\<close>.\<close>

definition mark_conn_dead :: "HydrantContext \<Rightarrow> PGconn option \<Rightarrow> string \<Rightarrow> fault + HydrantContext" where
  "mark_conn_dead ctx c error =
     (case find_pool_connection ctx c of
        None \<Rightarrow> Inl NullPointerDereference
      | Some i \<Rightarrow> Inr (mark_connection_dead ctx i error))"

text \<open>
  The local constant \<open>max_retries\<close> of \<open>flush_batch\<close> (the configuration has a field of
  the same name, which \<open>flush_batch\<close> does not read).
\<close>

definition max_retries_copy :: size_t where "max_retries_copy = 5"

text \<open>
  The chunked write.  \<open>k\<close> counts the put-chunk calls made so far; the result is
  \<open>(total_written, success, ctx)\<close> at the exit of the \<open>while\<close>.
\<close>

function copy_loop ::
  "pq_env \<Rightarrow> PGconn option \<Rightarrow> nat \<Rightarrow> size_t \<Rightarrow> size_t \<Rightarrow> HydrantContext
     \<Rightarrow> fault + (size_t \<times> bool \<times> HydrantContext)" where
  "copy_loop env c k total_written retry_count ctx =
     (if total_written < current_batch_pos ctx then
        let remaining = current_batch_pos ctx - total_written;
            chunk_size = (if remaining > COPY_CHUNK_SIZE then COPY_CHUNK_SIZE else remaining);
            result = PQputCopyData env k
        in
        if result = 1 then
          let total_written' = total_written + chunk_size;
              ctx' = (if total_written' mod (1024 * 1024) = 0
                      then structured_log ''DEBUG'' ''COPY progress: %zu/%zu bytes''
                             [Num (uint total_written'), Num (uint (current_batch_pos ctx))] ctx
                      else ctx)
          in copy_loop env c (Suc k) total_written' 0 ctx'
        else if result = 0 then
          let retry_count' = retry_count + 1 in
          if retry_count' > max_retries_copy then
            let error = ''Max retries exceeded waiting for buffer space'' in
            (case mark_conn_dead (structured_log ''ERROR'' ''%s'' [Str error] ctx) c error of
               Inl f \<Rightarrow> Inl f
             | Inr ctx' \<Rightarrow> Inr (total_written, False, ctx'))
          else copy_loop env c (Suc k) total_written retry_count' ctx
        else
          let error = error_message env c in
          (case mark_conn_dead
                  (structured_log ''ERROR'' ''Failed to write batch data: %s'' [Str error] ctx)
                  c error of
             Inl f \<Rightarrow> Inl f
           | Inr ctx' \<Rightarrow> Inr (total_written, False, ctx'))
      else Inr (total_written, True, ctx))"
  by pat_completeness auto

termination copy_loop
proof (relation "measures [\<lambda>(env, c, k, tw, rc, ctx). unat (current_batch_pos ctx) - unat tw,
                           \<lambda>(env, c, k, tw, rc, ctx). unat (5 - rc)]", goal_cases)
  case 1
  then show ?case by simp
next
  case (2 env c k tw rc ctx remaining chunk result tw' ctx')
  let ?pos = "current_batch_pos ctx"
  have lt: "unat tw < unat ?pos" using 2(1) by (simp add: word_less_nat_alt)
  have chunk: "chunk = (if ?pos - tw > COPY_CHUNK_SIZE then COPY_CHUNK_SIZE else ?pos - tw)"
    using 2(3) unfolding 2(2) .
  have c1: "chunk \<le> ?pos - tw" using chunk by auto
  have "?pos - tw \<noteq> 0" using 2(1) by simp
  then have "chunk \<noteq> 0" using chunk by (simp add: COPY_CHUNK_SIZE_def)
  then have c2: "0 < unat chunk" by (simp add: unat_gt_0)
  have "unat (?pos - tw) = unat ?pos - unat tw" using 2(1) by (simp add: unat_sub)
  then have "unat chunk \<le> unat ?pos - unat tw"
    using c1 by (simp only: word_le_nat_alt)
  then have fits: "unat tw + unat chunk \<le> unat ?pos" using lt by arith
  moreover have "unat ?pos < 2 ^ LENGTH(64)" by (rule unsigned_less)
  ultimately have "unat tw + unat chunk < 2 ^ LENGTH(64)" by (rule le_less_trans)
  then have "unat (tw + chunk) = unat tw + unat chunk" by (rule unat_add_lem [THEN iffD1])
  then have "unat ?pos - unat (tw + chunk) < unat ?pos - unat tw"
    using c2 lt fits by arith
  moreover have "current_batch_pos ctx' = ?pos"
    unfolding 2(7) by (simp add: structured_log_def)
  ultimately show ?case unfolding 2(6) by simp
next
  case (3 env c k tw rc ctx remaining chunk result rc')
  have le: "rc + 1 \<le> 5" using 3 by (simp add: max_retries_copy_def not_less)
  then have le6: "rc + 1 \<le> 6" by (rule order_trans) simp
  have a: "unat (5 - (rc + 1)) = unat (5 :: size_t) - unat (rc + 1)"
    by (rule unat_sub [OF le])
  have "unat (6 - (rc + 1)) = unat (6 :: size_t) - unat (rc + 1)"
    by (rule unat_sub [OF le6])
  moreover have "6 - (rc + 1) = 5 - rc" by simp
  ultimately have b: "unat (5 - rc) = unat (6 :: size_t) - unat (rc + 1)" by simp
  have "unat (rc + 1) \<le> 5" using le by (simp add: word_le_nat_alt)
  then have "unat (5 - (rc + 1)) < unat (5 - rc)" unfolding a b by simp
  then show ?case using 3 by simp
qed

text \<open>
  \<open>flush_batch(ctx, &processed, &failed)\<close>.  \<open>p0\<close> and \<open>f0\<close> are the values the caller's
  variables hold at the call; the result is the return value, the values they hold at
  the return, and the context.
\<close>

definition flush_batch ::
  "pq_env \<Rightarrow> HydrantContext \<Rightarrow> size_t \<Rightarrow> size_t
     \<Rightarrow> fault + (bool \<times> size_t \<times> size_t \<times> HydrantContext)" where
  "flush_batch env ctx p0 f0 =
     (if current_batch_pos ctx = 0 then Inr (True, p0, f0, ctx)
      else
        case get_connection env ctx of
          (None, ctx1) \<Rightarrow>
            Inr (False, p0, f0,
                 structured_log ''ERROR'' ''No connection available for batch flush'' [] ctx1)
        | (Some h, ctx1) \<Rightarrow>
            let c = Some h in
            if \<not> begin_ok env then
              let error = error_message env c in
              (case mark_conn_dead
                      (structured_log ''ERROR'' ''Failed to begin transaction: %s''
                         [Str error] ctx1) c error of
                 Inl f \<Rightarrow> Inl f
               | Inr ctx2 \<Rightarrow> Inr (False, 0, 0, ctx2))
            else if \<not> copy_start_ok env then
              let error = error_message env c in
              (case mark_conn_dead
                      (structured_log ''ERROR'' ''Failed to start COPY: %s''
                         [Str error] ctx1) c error of
                 Inl f \<Rightarrow> Inl f
               | Inr ctx2 \<Rightarrow> Inr (False, 0, 0, ctx2))
            else
              (case copy_loop env c 0 0 0 ctx1 of
                 Inl f \<Rightarrow> Inl f
               | Inr (total_written, written, ctx2) \<Rightarrow>
                   let (success, ctx3) =
                         (if written then
                            if \<not> PQputCopyEnd_ok env then
                              (False, structured_log ''ERROR'' ''Failed to end COPY: %s''
                                        [Str (error_message env c)] ctx2)
                            else if \<not> commit_ok env then
                              (False, structured_log ''ERROR''
                                        ''Failed to commit transaction: %s''
                                        [Str (error_message env c)] ctx2)
                            else (True, ctx2)
                          else (False, ctx2));
                       failed_out = (if \<not> success then current_batch_pos ctx3 - total_written
                                     else 0);
                       processed_out = total_written;
                       st = stats ctx3;
                       ctx4 = ctx3\<lparr>stats := st
                                \<lparr>batches_processed := batches_processed st + 1,
                                 total_bytes := total_bytes st + total_written,
                                 errors := (if failed_out > 0 then errors st + 1
                                            else errors st)\<rparr>\<rparr>
                   in (case return_connection env ctx4 c (\<not> success) of
                         Inl f \<Rightarrow> Inl f
                       | Inr ctx5 \<Rightarrow>
                           Inr (success, processed_out, failed_out,
                                ctx5\<lparr>current_batch_pos := 0\<rparr>))))"

section \<open>Batch statistics (src/batch.c, update\_batch\_stats)\<close>

text \<open>
  \<open>ctx->batch_stats\<close> is an array of \<open>batch_stats_size\<close> records, held as a list; an
  index is a \<open>size_t\<close>, so \<open>current_batch - 1\<close> wraps around at zero.  The clock is read
  once (\<open>time(NULL)\<close>).
\<close>

definition update_batch_stats ::
  "pq_env \<Rightarrow> HydrantContext \<Rightarrow> size_t \<Rightarrow> size_t \<Rightarrow> fault + HydrantContext" where
  "update_batch_stats env ctx p f =
     (let cur = current_batch ctx in
      if \<not> unat cur < length (batch_stats ctx) then Inl IndexOutOfBounds
      else
        let ring = (batch_stats ctx)[unat cur :=
                      \<lparr>processed = p, failed = f, timestamp = now env\<rparr>];
            st0 = stats ctx;
            st1 = st0\<lparr>total_bytes := total_bytes st0 + p,
                      batches_processed := batches_processed st0 + 1,
                      errors := errors st0 + f\<rparr>;
            ctx1 = ctx\<lparr>batch_stats := ring, stats := st1\<rparr>
        in
        if batches_processed st1 > 1 \<and> \<not> unat (cur - 1) < length ring then Inl IndexOutOfBounds
        else
          let st2 =
                (if batches_processed st1 > 1 then
                   let batch_time = timestamp (ring ! unat cur) - timestamp (ring ! unat (cur - 1))
                   in st1\<lparr>avg_batch_time_ms :=
                            (avg_batch_time_ms st1 * real (unat (batches_processed st1 - 1))
                               + real_of_int batch_time * 1000)
                            / real (unat (batches_processed st1))\<rparr>
                 else st1)
          in
          if batch_stats_size ctx = 0 then Inl DivisionByZero
          else Inr (ctx1\<lparr>stats := st2,
                         current_batch := (cur + 1) mod batch_stats_size ctx\<rparr>))"

text \<open>What the caller reads back after \<open>flush_batch\<close>: the return value and the two counts.\<close>

definition outputs_of ::
  "fault + (bool \<times> size_t \<times> size_t \<times> HydrantContext) \<Rightarrow> (bool \<times> size_t \<times> size_t) option" where
  "outputs_of r = (case r of Inl _ \<Rightarrow> None | Inr (ok, p, f, _) \<Rightarrow> Some (ok, p, f))"

text \<open>
  The callers' pattern (\<open>process_input\<close>, \<open>main\<close>):
  \<open>size_t processed = 0, failed = 0; flush_batch(ctx, &processed, &failed);
  update_batch_stats(ctx, processed, failed);\<close>
\<close>

definition flush_then_update :: "pq_env \<Rightarrow> HydrantContext \<Rightarrow> fault + HydrantContext" where
  "flush_then_update env ctx =
     (case flush_batch env ctx 0 0 of
        Inl f \<Rightarrow> Inl f
      | Inr (ok, p, f, ctx') \<Rightarrow> update_batch_stats env ctx' p f)"

section \<open>Configuration and construction (src/init.c)\<close>

text \<open>
  What the process environment answers during \<open>init_hydrant\<close>:
  \<open>getenv_HYDRANT_BATCH_SIZE\<close> is the \<open>long\<close> that \<open>atol\<close> reads from the variable
  (\<open>None\<close> when it is unset), \<open>yaml_load\<close> is how far the loading of the YAML file gets.
\<close>

datatype yaml_outcome = FopenFailed | ParserInitFailed | ParseFailed | RootNotMapping | YamlOk

record sys_env =
  getenv_HYDRANT_BATCH_SIZE :: "int option"
  getenv_HYDRANT_DB_URL :: "string option"
  yaml_load :: yaml_outcome
  calloc_ctx_ok :: bool
  calloc_config_ok :: bool
  sync_init_ok :: bool
  malloc_batch_buffer_ok :: bool
  calloc_batch_stats_ok :: bool
  start_workers_ok :: bool

definition default_config :: HydrantConfig where
  "default_config =
     \<lparr>db_conn_string = None, batch_size = DEFAULT_BATCH_SIZE, max_retries = 3,
      retry_delay_ms = 100, require_ssl = True\<rparr>"

text \<open>\<open>load_config\<close>: the records it logs and the configuration, \<open>None\<close> for \<open>NULL\<close>.\<close>

definition load_config :: "sys_env \<Rightarrow> string option \<Rightarrow> log_record list \<times> HydrantConfig option" where
  "load_config sys config_path =
     (if \<not> calloc_config_ok sys then ([], None)
      else
        case config_path of
          None \<Rightarrow>
            let config1 =
                  (case getenv_HYDRANT_BATCH_SIZE sys of
                     None \<Rightarrow> default_config
                   | Some v \<Rightarrow>
                       let sz = (word_of_int v :: size_t) in
                       if sz \<ge> MIN_BATCH_SIZE \<and> sz \<le> MAX_BATCH_SIZE
                       then default_config\<lparr>batch_size := sz\<rparr>
                       else default_config)
            in (case getenv_HYDRANT_DB_URL sys of
                  Some url \<Rightarrow> ([], Some (config1\<lparr>db_conn_string := Some url\<rparr>))
                | None \<Rightarrow>
                    ([(''ERROR'', ''No database connection string provided'', [])], None))
        | Some path \<Rightarrow>
            (case yaml_load sys of
               FopenFailed \<Rightarrow> ([(''ERROR'', ''Failed to open config file: %s'', [])], None)
             | ParserInitFailed \<Rightarrow>
                 ([(''ERROR'', ''Failed to initialize YAML parser'', [])], None)
             | ParseFailed \<Rightarrow> ([(''ERROR'', ''Failed to parse YAML: %s'', [])], None)
             | RootNotMapping \<Rightarrow> ([(''ERROR'', ''Invalid YAML structure'', [])], None)
             | YamlOk \<Rightarrow> ([], Some default_config)))"

text \<open>The clamp of \<open>init_hydrant\<close> (the two \<open>if\<close>s that follow \<open>load_config\<close>).\<close>

definition clamp_batch_size :: "HydrantContext \<Rightarrow> HydrantContext" where
  "clamp_batch_size ctx =
     (let ctx1 =
            (if batch_size (config ctx) < MIN_BATCH_SIZE then
               (structured_log ''WARN'' ''Batch size %zu below minimum, using %d''
                  [Num (uint (batch_size (config ctx))), Num (uint MIN_BATCH_SIZE)] ctx)
                 \<lparr>config := (config ctx)\<lparr>batch_size := MIN_BATCH_SIZE\<rparr>\<rparr>
             else ctx)
      in if batch_size (config ctx1) > MAX_BATCH_SIZE then
           (structured_log ''WARN'' ''Batch size %zu above maximum, using %d''
              [Num (uint (batch_size (config ctx1))), Num (uint MAX_BATCH_SIZE)] ctx1)
             \<lparr>config := (config ctx1)\<lparr>batch_size := MAX_BATCH_SIZE\<rparr>\<rparr>
         else ctx1)"

text \<open>One iteration of the pool loop of \<open>init_hydrant\<close>.\<close>

definition init_slot :: "pq_env \<Rightarrow> HydrantContext \<Rightarrow> nat \<Rightarrow> HydrantContext" where
  "init_slot env ctx i =
     (let c = PQconnectdb env i;
          pc = (pool ctx ! i)\<lparr>conn := c\<rparr>;
          (pc1, ctx1) =
            (if \<not> conn_ok env c then
               (pc\<lparr>state := CONN_DEAD, last_error := snprintf_err (error_message env c)\<rparr>,
                structured_log ''ERROR'' ''Failed to connect to DB: %s''
                  [Str (error_message env c)] ctx)
             else if require_ssl (config ctx) \<and> \<not> ssl_in_use env c then
               (pc\<lparr>state := CONN_DEAD\<rparr>,
                structured_log ''ERROR'' ''SSL required but not in use for connection %d''
                  [Num (int i)] ctx)
             else if \<not> prepare_ok env c then
               (pc\<lparr>state := CONN_DEAD\<rparr>,
                structured_log ''ERROR'' ''Failed to prepare statement: %s''
                  [Str (error_message env c)] ctx)
             else
               (pc\<lparr>state := CONN_AVAILABLE\<rparr>,
                ctx\<lparr>healthy_connections := healthy_connections ctx + 1\<rparr>))
      in set_slot i
           (pc1\<lparr>failed_attempts := 0, recovery_attempts := 0, last_used := 0,
                next_recovery_attempt := 0\<rparr>) ctx1)"

fun init_pool :: "pq_env \<Rightarrow> nat list \<Rightarrow> HydrantContext \<Rightarrow> HydrantContext" where
  "init_pool env [] ctx = ctx"
| "init_pool env (i # js) ctx = init_pool env js (init_slot env ctx i)"

text \<open>The context as \<open>calloc\<close> leaves it, with the loaded configuration attached.\<close>

definition calloc_context :: "HydrantConfig \<Rightarrow> log_record list \<Rightarrow> HydrantContext" where
  "calloc_context cfg lg =
     \<lparr>config = cfg, shutdown_requested = False,
      pool = replicate MAX_POOL_SIZE
               \<lparr>conn = None, state = CONN_AVAILABLE, last_used = 0, failed_attempts = 0,
                recovery_attempts = 0, next_recovery_attempt = 0, last_error = []\<rparr>,
      healthy_connections = 0, batch_buffer = [], current_batch_pos = 0,
      batch_stats = [], batch_stats_size = 0, current_batch = 0,
      stats = \<lparr>total_bytes = 0, batches_processed = 0, copy_operations = 0, errors = 0,
               connection_resets = 0, connection_failures = 0, avg_batch_time_ms = 0,
               start_time = 0, last_batch = 0\<rparr>,
      stderr_log = lg\<rparr>"

text \<open>
  \<open>init_hydrant\<close>: the records logged and the context, \<open>None\<close> for \<open>NULL\<close>.  On the
  failure paths the status dump of \<open>cleanup_hydrant\<close> is not recorded, and the
  \<open>strerror(errno)\<close> argument of a record is left out.  The bytes of the fresh batch
  buffer are indeterminate in the source and zero here.
\<close>

definition init_hydrant ::
  "sys_env \<Rightarrow> pq_env \<Rightarrow> string option \<Rightarrow> log_record list \<times> HydrantContext option" where
  "init_hydrant sys env config_path =
     (if \<not> calloc_ctx_ok sys then ([(''ERROR'', ''Failed to allocate context: %s'', [])], None)
      else
        case load_config sys config_path of
          (lg, None) \<Rightarrow> (lg @ [(''ERROR'', ''Failed to load configuration'', [])], None)
        | (lg, Some cfg) \<Rightarrow>
            let ctx1 = clamp_batch_size (calloc_context cfg lg) in
            if \<not> sync_init_ok sys then
              (stderr_log (structured_log ''ERROR'' ''Failed to initialize mutex/cond: %s'' []
                             ctx1), None)
            else
              let ctx2 = init_pool env [0..<MAX_POOL_SIZE]
                           (ctx1\<lparr>healthy_connections := 0\<rparr>) in
              if healthy_connections ctx2 = 0 then
                (stderr_log (structured_log ''ERROR'' ''No healthy connections available'' []
                               ctx2), None)
              else if \<not> malloc_batch_buffer_ok sys then
                (stderr_log (structured_log ''ERROR'' ''Failed to allocate batch buffer: %s'' []
                               ctx2), None)
              else
                let ctx3 = ctx2\<lparr>batch_buffer :=
                                   replicate (unat (batch_size (config ctx2))) 0,
                                 batch_stats_size := 1000\<rparr> in
                if \<not> calloc_batch_stats_ok sys then
                  (stderr_log (structured_log ''ERROR'' ''Failed to allocate batch stats: %s'' []
                                 ctx3), None)
                else
                  let ctx4 = ctx3\<lparr>batch_stats :=
                                     replicate (unat (batch_stats_size ctx3))
                                       \<lparr>processed = 0, failed = 0, timestamp = 0\<rparr>,
                                   stats := (stats ctx3)\<lparr>start_time := now env,
                                                          last_batch := now env\<rparr>\<rparr> in
                  if \<not> start_workers_ok sys then
                    (stderr_log (structured_log ''ERROR'' ''Failed to start workers'' [] ctx4),
                     None)
                  else
                    let ctx5 = structured_log ''INFO''
                                 ''Hydrant initialized successfully with %zu healthy connections''
                                 [Num (uint (healthy_connections ctx4))] ctx4
                    in (stderr_log ctx5, Some ctx5))"

section \<open>Example contexts\<close>

text \<open>
  A context as \<open>init_hydrant\<close> leaves it when all ten connects succeed at time 1000 with
  the default configuration, and variations of it used to run the functions.
\<close>

definition demo_slot :: "nat \<Rightarrow> PoolConnection" where
  "demo_slot i =
     \<lparr>conn = Some (100 + i), state = CONN_AVAILABLE, last_used = 0, failed_attempts = 0,
      recovery_attempts = 0, next_recovery_attempt = 0, last_error = []\<rparr>"

definition demo_ctx :: HydrantContext where
  "demo_ctx =
     \<lparr>config = \<lparr>db_conn_string = Some ''postgres://db'', batch_size = DEFAULT_BATCH_SIZE,
                 max_retries = 3, retry_delay_ms = 100, require_ssl = True\<rparr>,
      shutdown_requested = False,
      pool = map demo_slot [0..<10],
      healthy_connections = 10,
      batch_buffer = replicate 1048576 0,
      current_batch_pos = 0,
      batch_stats = replicate 1000 \<lparr>processed = 0, failed = 0, timestamp = 0\<rparr>,
      batch_stats_size = 1000,
      current_batch = 0,
      stats = \<lparr>total_bytes = 0, batches_processed = 0, copy_operations = 0, errors = 0,
               connection_resets = 0, connection_failures = 0, avg_batch_time_ms = 0,
               start_time = 1000, last_batch = 1000\<rparr>,
      stderr_log = []\<rparr>"


definition demo_env :: pq_env where
  "demo_env =
     \<lparr>now = 1000, PQconnectdb = (\<lambda>i. Some (100 + i)), PQstatus_ok = (\<lambda>h. True),
      PQsslInUse = (\<lambda>h. True), PQprepare_ok = (\<lambda>h. True),
      PQerrorMessage = (\<lambda>h. ''server closed the connection unexpectedly''),
      wakeups = [], begin_ok = True, copy_start_ok = True, PQputCopyData = (\<lambda>k. 1),
      PQputCopyEnd_ok = True, commit_ok = True\<rparr>"

definition demo_sys :: sys_env where
  "demo_sys =
     \<lparr>getenv_HYDRANT_BATCH_SIZE = None, getenv_HYDRANT_DB_URL = Some ''postgres://db'',
      yaml_load = YamlOk, calloc_ctx_ok = True, calloc_config_ok = True, sync_init_ok = True,
      malloc_batch_buffer_ok = True, calloc_batch_stats_ok = True, start_workers_ok = True\<rparr>"

text \<open>The first batch of a run: 100 bytes appended, nothing flushed yet.\<close>

definition first_batch :: HydrantContext where
  "first_batch = demo_ctx\<lparr>current_batch_pos := 100\<rparr>"

text \<open>
  A later batch: one batch has been recorded by \<open>update_batch_stats\<close> (as after a flush
  that found no connection), so the ring position is 1 and one batch is counted.
\<close>

definition second_batch :: HydrantContext where
  "second_batch =
     demo_ctx\<lparr>current_batch_pos := 100, current_batch := 1,
              batch_stats := (batch_stats demo_ctx)
                               [0 := \<lparr>processed = 0, failed = 0, timestamp = 1000\<rparr>],
              stats := (stats demo_ctx)\<lparr>batches_processed := 1\<rparr>\<rparr>"

text \<open>The same with 20000 bytes in the buffer, and a server that fails the second chunk.\<close>

definition big_batch :: HydrantContext where
  "big_batch = second_batch\<lparr>current_batch_pos := 20000\<rparr>"

definition write_error_env :: pq_env where
  "write_error_env = demo_env\<lparr>PQputCopyData := (\<lambda>k. if k = 0 then 1 else - 1)\<rparr>"

text \<open>Every slot is in use by someone else.\<close>

definition busy_ctx :: HydrantContext where
  "busy_ctx =
     demo_ctx\<lparr>current_batch_pos := 100,
              pool := map (\<lambda>i. (demo_slot i)\<lparr>state := CONN_IN_USE\<rparr>) [0..<10]\<rparr>"

text \<open>Slot 0 has just been marked dead; the server refuses every new connection.\<close>

definition dead_ctx :: HydrantContext where
  "dead_ctx = mark_connection_dead demo_ctx 0 ''server closed the connection unexpectedly''"

definition down_env :: pq_env where
  "down_env = demo_env\<lparr>PQstatus_ok := (\<lambda>h. False)\<rparr>"

text \<open>The \<open>WARN\<close> records of a log.\<close>

definition warn_records :: "log_record list \<Rightarrow> log_record list" where
  "warn_records lg = filter (\<lambda>r. fst r = ''WARN'') lg"

text \<open>\<open>HYDRANT_BATCH_SIZE\<close> set to 32 KiB and to 32 MiB.\<close>

definition sys_32k :: sys_env where
  "sys_32k = demo_sys\<lparr>getenv_HYDRANT_BATCH_SIZE := Some 32768\<rparr>"

definition sys_32m :: sys_env where
  "sys_32m = demo_sys\<lparr>getenv_HYDRANT_BATCH_SIZE := Some 33554432\<rparr>"

text \<open>
  Two ways the timed wait of \<open>get_connection\<close> can go before its deadline: one wake-up
  with the pool unchanged; and a wake-up with the pool unchanged followed by one after
  another thread has released slot 0.
\<close>

definition spurious_env :: pq_env where
  "spurious_env = demo_env\<lparr>wakeups := [\<lambda>p. p]\<rparr>"

definition release_env :: pq_env where
  "release_env =
     demo_env\<lparr>wakeups := [\<lambda>p. p, \<lambda>p. p[0 := (p ! 0)\<lparr>state := CONN_AVAILABLE\<rparr>]]\<rparr>"


section \<open>Properties\<close>

subsection \<open>Evaluation of the example contexts\<close>

lemma upt_0_10: "[0..<10] = [0, 1, 2, 3, 4, 5, 6, 7, 8, 9::nat]"
  by code_simp

lemma pool_indices: "[0..<MAX_POOL_SIZE] = [0, 1, 2, 3, 4, 5, 6, 7, 8, 9]"
  unfolding MAX_POOL_SIZE_def by (rule upt_0_10)

lemma replicate_10: "replicate 10 x = [x, x, x, x, x, x, x, x, x, x]"
  by (simp add: eval_nat_numeral)

lemma list_update_Cons_numeral: "(x # xs)[numeral n := y] = x # xs[pred_numeral n := y]"
  by (simp add: numeral_eq_Suc)

lemma unat_minus_1_size_t: "unat (- 1 :: size_t) = 18446744073709551615"
  by (simp add: unsigned_minus_1_eq_mask mask_eq_exp_minus_1)

lemmas eval_defs = pool_indices upt_0_10 unat_minus_1_size_t demo_env_def demo_ctx_def
  demo_slot_def flush_then_update_def flush_batch_def get_connection_def available_ok_def
  conn_ok_def take_slot_def set_slot_def structured_log_def return_connection_def
  find_pool_connection_def update_batch_stats_def MAX_POOL_SIZE_def COPY_CHUNK_SIZE_def
  max_retries_copy_def mark_conn_dead_def mark_connection_dead_def error_message_def
  snprintf_err_def MAX_ERROR_LENGTH_def CONNECTION_DEAD_THRESHOLD_def DEFAULT_BATCH_SIZE_def
  Let_def

lemmas init_defs = init_hydrant_def load_config_def default_config_def clamp_batch_size_def
  calloc_context_def init_slot_def ssl_in_use_def prepare_ok_def demo_sys_def replicate_10
  list_update_Cons_numeral MIN_BATCH_SIZE_def MAX_BATCH_SIZE_def

text \<open>\<open>init_hydrant\<close> with ten good connections yields the example context.\<close>

lemma init_demo:
  "init_hydrant demo_sys demo_env None =
     ([(''INFO'', ''Hydrant initialized successfully with %zu healthy connections'', [Num 10])],
      Some (demo_ctx\<lparr>stderr_log :=
         [(''INFO'', ''Hydrant initialized successfully with %zu healthy connections'',
           [Num 10])]\<rparr>))"
  by (simp add: init_defs eval_defs)

subsection \<open>Append\<close>




text \<open>A successful append of \<open>size\<close> bytes into a buffer that holds them copies them.\<close>

lemma add_to_batch_copies_data:
  assumes "fst (add_to_batch ctx data sz)" and "length data = unat sz"
    and "unat (current_batch_pos ctx) + unat sz \<le> length (batch_buffer ctx)"
  shows "take (unat sz) (drop (unat (current_batch_pos ctx))
                           (batch_buffer (snd (add_to_batch ctx data sz)))) = data
       \<and> take (unat (current_batch_pos ctx)) (batch_buffer (snd (add_to_batch ctx data sz)))
           = take (unat (current_batch_pos ctx)) (batch_buffer ctx)
       \<and> length (batch_buffer (snd (add_to_batch ctx data sz))) = length (batch_buffer ctx)"
  using assms by (auto simp: add_to_batch_def memcpy_at_def split: if_splits)

subsection \<open>Marking a connection dead\<close>

text \<open>
  C9.  \<open>mark_connection_dead\<close> is idempotent: on a slot that is already \<open>DEAD\<close> or
  \<open>PERMANENT_FAILURE\<close> it changes nothing (slot state, healthy counter, last error and
  log included); on any other slot it decrements the healthy counter once, sets the
  slot \<open>DEAD\<close> and writes one \<open>WARN\<close> record; a second call after the first changes
  nothing more.
\<close>

theorem mark_connection_dead_idempotent:
  assumes "i < length (pool ctx)"
  shows "(state (pool ctx ! i) = CONN_DEAD \<or> state (pool ctx ! i) = CONN_PERMANENT_FAILURE
            \<longrightarrow> mark_connection_dead ctx i error = ctx)
       \<and> (state (pool ctx ! i) \<noteq> CONN_DEAD \<and> state (pool ctx ! i) \<noteq> CONN_PERMANENT_FAILURE
            \<longrightarrow> healthy_connections (mark_connection_dead ctx i error)
                  = healthy_connections ctx - 1
              \<and> state (pool (mark_connection_dead ctx i error) ! i) = CONN_DEAD
              \<and> stderr_log (mark_connection_dead ctx i error)
                  = stderr_log ctx @ [(''WARN'', ''Connection marked dead: %s'', [Str error])])
       \<and> mark_connection_dead (mark_connection_dead ctx i error) i error'
           = mark_connection_dead ctx i error"
  using assms
  by (simp add: mark_connection_dead_def set_slot_def structured_log_def Let_def)


theorem mark_connection_dead_idempotent_witness:
  "0 < length (pool demo_ctx)
   \<and> state (pool demo_ctx ! 0) \<noteq> CONN_DEAD \<and> state (pool demo_ctx ! 0) \<noteq> CONN_PERMANENT_FAILURE
   \<and> healthy_connections (mark_connection_dead demo_ctx 0 ''boom'') = 9
   \<and> state (pool (mark_connection_dead demo_ctx 0 ''boom'') ! 0) = CONN_DEAD
   \<and> mark_connection_dead (mark_connection_dead demo_ctx 0 ''boom'') 0 ''again''
       = mark_connection_dead demo_ctx 0 ''boom''"
proof -
  have len: "0 < length (pool demo_ctx)" by (simp add: demo_ctx_def)
  have st: "state (pool demo_ctx ! 0) = CONN_AVAILABLE"
    by (simp add: demo_ctx_def demo_slot_def)
  have h: "healthy_connections demo_ctx - 1 = 9" by (simp add: demo_ctx_def)
  show ?thesis
    using mark_connection_dead_idempotent [OF len, of "''boom''" "''again''"] len st h
    by simp
qed

subsection \<open>Flush followed by the statistics update\<close>

text \<open>
  C1.  A flush of a non-empty buffer followed by \<open>update_batch_stats\<close> with the returned
  counts should change the running statistics by exactly one batch.  It does not: a
  flush that reaches its end already counts the batch, the bytes and the error, and
  \<open>update_batch_stats\<close> counts the batch and the bytes again and adds the number of failed
  bytes to \<open>errors\<close>.  After a successful flush of 100 bytes the batch count is up by 2
  and the byte count by 200; after a flush that fails on its second chunk (8192 bytes
  written, 11808 not) the batch count is up by 2, the byte count by 16384 and \<open>errors\<close>
  by 11809.
\<close>

theorem flush_then_update_counts_twice:
  "(case flush_batch demo_env second_batch 0 0 of
      Inl _ \<Rightarrow> False
    | Inr (ok, p, f, ctx1) \<Rightarrow>
        ok \<and> p = 100 \<and> f = 0 \<and>
        (case update_batch_stats demo_env ctx1 p f of
           Inl _ \<Rightarrow> False
         | Inr ctx2 \<Rightarrow>
             batches_processed (stats ctx2) = batches_processed (stats second_batch) + 2
             \<and> total_bytes (stats ctx2) = total_bytes (stats second_batch) + 200
             \<and> errors (stats ctx2) = errors (stats second_batch)))
   \<and> (case flush_batch write_error_env big_batch 0 0 of
      Inl _ \<Rightarrow> False
    | Inr (ok, p, f, ctx1) \<Rightarrow>
        \<not> ok \<and> p = 8192 \<and> f = 11808 \<and>
        (case update_batch_stats write_error_env ctx1 p f of
           Inl _ \<Rightarrow> False
         | Inr ctx2 \<Rightarrow>
             batches_processed (stats ctx2) = batches_processed (stats big_batch) + 2
             \<and> total_bytes (stats ctx2) = total_bytes (stats big_batch) + 16384
             \<and> errors (stats ctx2) = errors (stats big_batch) + 11809))"
  by (simp add: second_batch_def big_batch_def write_error_env_def eval_defs)

subsection \<open>The buffer position after a flush\<close>

text \<open>
  C2.  \<open>flush_batch\<close> should leave the buffer position at zero on every return.  The three
  early returns (no connection, failed \<open>BEGIN\<close>, failed start of \<open>COPY\<close>) leave it where
  it was: with 100 bytes in the buffer the position is still 100 after the call.
\<close>

theorem flush_keeps_position_on_early_return:
  "(case flush_batch demo_env busy_ctx 0 0 of
      Inl _ \<Rightarrow> False
    | Inr (ok, p, f, ctx') \<Rightarrow> \<not> ok \<and> current_batch_pos ctx' = 100)
   \<and> (case flush_batch (demo_env\<lparr>begin_ok := False\<rparr>) first_batch 0 0 of
      Inl _ \<Rightarrow> False
    | Inr (ok, p, f, ctx') \<Rightarrow> \<not> ok \<and> current_batch_pos ctx' = 100)
   \<and> (case flush_batch (demo_env\<lparr>copy_start_ok := False\<rparr>) first_batch 0 0 of
      Inl _ \<Rightarrow> False
    | Inr (ok, p, f, ctx') \<Rightarrow> \<not> ok \<and> current_batch_pos ctx' = 100)"
  by (simp add: busy_ctx_def first_batch_def eval_defs)

text \<open>Every return after the \<open>COPY\<close> has started does reset the position.\<close>

lemma flush_resets_position_after_copy_start:
  assumes out: "flush_batch env ctx p0 f0 = Inr (ok, p, f, ctx')"
    and nonempty: "current_batch_pos ctx \<noteq> 0"
    and got: "fst (get_connection env ctx) \<noteq> None"
    and started: "begin_ok env" "copy_start_ok env"
  shows "current_batch_pos ctx' = 0"
proof -
  obtain h ctx1 where g: "get_connection env ctx = (Some h, ctx1)"
    using got by (cases "get_connection env ctx") auto
  show ?thesis
  proof (cases "copy_loop env (Some h) 0 0 0 ctx1")
    case (Inl e)
    then show ?thesis
      using out nonempty g started by (simp add: flush_batch_def)
  next
    case (Inr r)
    obtain tw w ctx2 where r: "r = (tw, w, ctx2)" by (cases r) auto
    show ?thesis
      using out nonempty g started Inr r
      by (cases w; cases "PQputCopyEnd_ok env"; cases "commit_ok env")
         (simp_all add: flush_batch_def Let_def split: sum.splits, auto)
  qed
qed

subsection \<open>The stats ring\<close>

text \<open>
  C10.  Every read of the stats ring in \<open>update_batch_stats\<close> should stay within bounds.
  The read of the previous timestamp is at index \<open>current_batch - 1\<close> in \<open>size_t\<close>; with
  \<open>current_batch = 0\<close> that is \<open>2^64 - 1\<close>, outside a ring of 1000 records.  This happens
  on the first batch of a run already: the flush has counted the batch, so the update
  sees \<open>batches_processed = 2 > 1\<close> while \<open>current_batch\<close> is still 0.
\<close>

theorem first_update_reads_before_ring:
  "(case flush_batch demo_env first_batch 0 0 of
      Inl _ \<Rightarrow> False
    | Inr (ok, p, f, ctx1) \<Rightarrow>
        current_batch ctx1 = 0 \<and> batches_processed (stats ctx1) = 1
        \<and> unat (current_batch ctx1 - 1) = 18446744073709551615
        \<and> length (batch_stats ctx1) = 1000
        \<and> update_batch_stats demo_env ctx1 p f = Inl IndexOutOfBounds)"
  by (simp add: first_batch_def eval_defs)

subsection \<open>The healthy-connection counter\<close>

text \<open>
  C6.  \<open>healthy_connections\<close> should equal the number of slots that are neither \<open>DEAD\<close>
  nor \<open>PERMANENT_FAILURE\<close> in every state reached from \<open>init_hydrant\<close> by
  \<open>get_connection\<close>, \<open>return_connection\<close>, \<open>mark_connection_dead\<close> and
  \<open>recover_dead_connection\<close>.  It holds after init, after \<open>get_connection\<close> and after
  \<open>mark_connection_dead\<close>; \<open>return_connection\<close> with \<open>had_error\<close> then puts the dead slot
  back to \<open>AVAILABLE\<close> without touching the counter, which stays at 9 with all 10 slots
  alive.  This is the sequence \<open>flush_batch\<close> itself runs on a write error.
\<close>

theorem healthy_counter_drifts_after_write_error:
  "(case init_hydrant demo_sys demo_env None of
      (lg, None) \<Rightarrow> False
    | (lg, Some ctx0) \<Rightarrow>
        unat (healthy_connections ctx0) = healthy_count ctx0 \<and>
        (case get_connection demo_env ctx0 of
           (c, ctx1) \<Rightarrow>
             c = Some 100 \<and>
             unat (healthy_connections ctx1) = healthy_count ctx1 \<and>
             (let ctx2 = mark_connection_dead ctx1 0 ''server closed the connection unexpectedly''
              in unat (healthy_connections ctx2) = healthy_count ctx2
               \<and> (case return_connection demo_env ctx2 c True of
                     Inl _ \<Rightarrow> False
                   | Inr ctx3 \<Rightarrow>
                       state (pool ctx3 ! 0) = CONN_AVAILABLE
                       \<and> unat (healthy_connections ctx3) = 9 \<and> healthy_count ctx3 = 10))))
   \<and> (case flush_batch write_error_env big_batch 0 0 of
      Inl _ \<Rightarrow> False
    | Inr (ok, p, f, ctx') \<Rightarrow>
        \<not> ok \<and> unat (healthy_connections ctx') = 9 \<and> healthy_count ctx' = 10)"
  unfolding init_demo
  by (simp add: healthy_count_def big_batch_def second_batch_def write_error_env_def eval_defs)

subsection \<open>Recovery back-off\<close>

text \<open>
  C4.  After a failed recovery attempt number \<open>k\<close> the next attempt should come at least
  \<open>RECOVERY_BACKOFF_BASE_MS * 2^min(k, MAX_BACKOFF_ATTEMPTS)\<close> milliseconds later.  The
  connect-failure branch schedules \<open>now + (100 << k) / 1000\<close> seconds, and the integer
  division gives 0 for every \<open>k\<close> up to \<open>MAX_RECOVERY_ATTEMPTS\<close>: the next attempt is
  allowed at the same clock reading (here a second attempt runs at time 1000, right after
  the first, where 200 ms were due).  The branches for a missing secure transport and a
  failed prepare do not schedule anything (see \<open>recovery_unscheduled_branches\<close>).
\<close>

theorem recovery_backoff_is_zero_seconds:
  "backoff_seconds 1 = 0 \<and> backoff_seconds 2 = 0 \<and> backoff_seconds 3 = 0
   \<and> (case recover_dead_connection down_env dead_ctx 0 of
        (ok1, ctx1) \<Rightarrow>
          \<not> ok1 \<and> recovery_attempts (pool ctx1 ! 0) = 1
          \<and> next_recovery_attempt (pool ctx1 ! 0) = now down_env
          \<and> (next_recovery_attempt (pool ctx1 ! 0) - now down_env) * 1000
                < RECOVERY_BACKOFF_BASE_MS * 2 ^ 1
          \<and> (case recover_dead_connection down_env ctx1 0 of
                (ok2, ctx2) \<Rightarrow>
                  \<not> ok2 \<and> recovery_attempts (pool ctx2 ! 0) = 2
                  \<and> connection_failures (stats ctx2) = 2))"
  by (simp add: backoff_seconds_def recover_dead_connection_def down_env_def dead_ctx_def
        MAX_BACKOFF_ATTEMPTS_def RECOVERY_BACKOFF_BASE_MS_def MAX_RECOVERY_ATTEMPTS_def eval_defs)

lemma recovery_unscheduled_branches:
  "next_recovery_attempt
     (pool (snd (recover_dead_connection (demo_env\<lparr>PQsslInUse := (\<lambda>h. False)\<rparr>) dead_ctx 0)) ! 0)
     = next_recovery_attempt (pool dead_ctx ! 0)
   \<and> recovery_attempts
     (pool (snd (recover_dead_connection (demo_env\<lparr>PQsslInUse := (\<lambda>h. False)\<rparr>) dead_ctx 0)) ! 0)
     = 1
   \<and> next_recovery_attempt
     (pool (snd (recover_dead_connection (demo_env\<lparr>PQprepare_ok := (\<lambda>h. False)\<rparr>) dead_ctx 0)) ! 0)
     = next_recovery_attempt (pool dead_ctx ! 0)
   \<and> recovery_attempts
     (pool (snd (recover_dead_connection (demo_env\<lparr>PQprepare_ok := (\<lambda>h. False)\<rparr>) dead_ctx 0)) ! 0)
     = 1"
  by (simp add: recover_dead_connection_def dead_ctx_def ssl_in_use_def prepare_ok_def
        MAX_RECOVERY_ATTEMPTS_def eval_defs)

subsection \<open>The outputs of a flush\<close>

text \<open>
  C3.  A non-empty flush that finds no connection should return false with
  \<open>*processed = 0\<close> and \<open>*failed = 0\<close>, and every return of a non-empty flush should
  have assigned both outputs, \<open>failed\<close> being the unshipped tail.  The return after the
  failed \<open>get_connection\<close> comes before the two assignments: a caller that passes 5 and 7
  reads 5 and 7 back.  The returns after a failed \<open>BEGIN\<close> and after a failed start of
  \<open>COPY\<close> report \<open>failed = 0\<close> with all 100 buffered bytes unshipped.
\<close>

theorem flush_outputs_on_early_return:
  "current_batch_pos busy_ctx = 100
   \<and> fst (get_connection demo_env busy_ctx) = None
   \<and> outputs_of (flush_batch demo_env busy_ctx 5 7) = Some (False, 5, 7)
   \<and> current_batch_pos first_batch = 100
   \<and> outputs_of (flush_batch (demo_env\<lparr>begin_ok := False\<rparr>) first_batch 0 0)
       = Some (False, 0, 0)
   \<and> outputs_of (flush_batch (demo_env\<lparr>copy_start_ok := False\<rparr>) first_batch 0 0)
       = Some (False, 0, 0)"
  by (simp add: busy_ctx_def first_batch_def outputs_of_def eval_defs)

text \<open>
  What does hold of the outputs.  Nothing on the way through a flush moves the buffer
  position before its last line; with no connection the outputs are left as passed; after
  an acquisition they do not depend on what was passed; and once the \<open>COPY\<close> has started
  \<open>failed\<close> is 0 on success and the position minus \<open>processed\<close> otherwise.
\<close>

lemma recover_pos:
  "current_batch_pos (snd (recover_dead_connection env ctx i)) = current_batch_pos ctx"
  by (simp add: recover_dead_connection_def Let_def set_slot_def structured_log_def)

lemma second_pass_pos:
  "current_batch_pos (snd (second_pass env js ctx)) = current_batch_pos ctx"
proof (induction js arbitrary: ctx)
  case Nil
  show ?case by simp
next
  case (Cons i js)
  show ?case
  proof (cases "state (pool ctx ! i) = CONN_DEAD")
    case False
    then show ?thesis using Cons.IH [of ctx] by simp
  next
    case True
    obtain ok ctx' where r: "recover_dead_connection env ctx i = (ok, ctx')"
      by (cases "recover_dead_connection env ctx i")
    have "current_batch_pos ctx' = current_batch_pos ctx"
      using recover_pos [of env ctx i] r by simp
    then show ?thesis
      using True r Cons.IH [of ctx'] by (cases ok) simp_all
  qed
qed

lemma take_slot_pos: "current_batch_pos (snd (take_slot env ctx i)) = current_batch_pos ctx"
  by (simp add: take_slot_def Let_def set_slot_def)

lemma wait_loop_pos: "current_batch_pos (snd (wait_loop env ws ctx)) = current_batch_pos ctx"
proof (induction ws arbitrary: ctx)
  case Nil
  show ?case by simp
next
  case (Cons w ws)
  show ?case
    using Cons.IH [of "ctx\<lparr>pool := w (pool ctx)\<rparr>"]
    by (simp add: Let_def take_slot_pos split: option.splits)
qed

lemma get_connection_pos:
  "current_batch_pos (snd (get_connection env ctx)) = current_batch_pos ctx"
proof (cases "first_index (available_ok env) (take MAX_POOL_SIZE (pool ctx))")
  case (Some i)
  then show ?thesis by (simp add: get_connection_def take_slot_pos)
next
  case None
  obtain r ctx' where sp: "second_pass env [0..<MAX_POOL_SIZE] ctx = (r, ctx')"
    by (cases "second_pass env [0..<MAX_POOL_SIZE] ctx")
  have "current_batch_pos ctx' = current_batch_pos ctx"
    using second_pass_pos [of env "[0..<MAX_POOL_SIZE]" ctx] sp by simp
  then show ?thesis
    using None sp by (cases r) (simp_all add: get_connection_def take_slot_pos wait_loop_pos)
qed

lemma mark_conn_dead_pos:
  "mark_conn_dead ctx c e = Inr ctx' \<Longrightarrow> current_batch_pos ctx' = current_batch_pos ctx"
  by (auto simp: mark_conn_dead_def mark_connection_dead_def Let_def set_slot_def
        structured_log_def split: option.splits if_splits)

lemma copy_loop_pos:
  "copy_loop env c k tw rc ctx = Inr (tw', w, ctx') \<Longrightarrow>
     current_batch_pos ctx' = current_batch_pos ctx"
proof (induction env c k tw rc ctx rule: copy_loop.induct)
  case (1 env c k total_written retry_count ctx)
  show ?case
  proof (cases "total_written < current_batch_pos ctx")
    case False
    then show ?thesis using "1.prems" by (subst (asm) copy_loop.simps) simp
  next
    case lt: True
    let ?remaining = "current_batch_pos ctx - total_written"
    let ?chunk = "if ?remaining > COPY_CHUNK_SIZE then COPY_CHUNK_SIZE else ?remaining"
    let ?tw = "total_written + ?chunk"
    let ?ctx = "if ?tw mod (1024 * 1024) = 0
                then structured_log ''DEBUG'' ''COPY progress: %zu/%zu bytes''
                       [Num (uint ?tw), Num (uint (current_batch_pos ctx))] ctx
                else ctx"
    consider (written) "PQputCopyData env k = 1"
      | (retry) "PQputCopyData env k = 0" "\<not> retry_count + 1 > max_retries_copy"
      | (exhausted) "PQputCopyData env k = 0" "retry_count + 1 > max_retries_copy"
      | (error) "PQputCopyData env k \<noteq> 1" "PQputCopyData env k \<noteq> 0"
      by blast
    then show ?thesis
    proof cases
      case written
      have "copy_loop env c (Suc k) ?tw 0 ?ctx = Inr (tw', w, ctx')"
        using "1.prems" lt written by (subst (asm) copy_loop.simps) (simp add: Let_def)
      then have "current_batch_pos ctx' = current_batch_pos ?ctx"
        using lt written by (intro "1.IH"(1) [OF lt refl refl refl _ refl refl]) simp_all
      then show ?thesis by (simp add: structured_log_def)
    next
      case retry
      have "copy_loop env c (Suc k) total_written (retry_count + 1) ctx = Inr (tw', w, ctx')"
        using "1.prems" lt retry by (subst (asm) copy_loop.simps) (simp add: Let_def)
      then show ?thesis
        using lt retry by (intro "1.IH"(2) [OF lt refl refl refl _ _ refl]) simp_all
    next
      case exhausted
      then show ?thesis
        using "1.prems" lt
        by (subst (asm) copy_loop.simps)
           (auto simp: Let_def structured_log_def split: sum.splits dest!: mark_conn_dead_pos)
    next
      case error
      then show ?thesis
        using "1.prems" lt
        by (subst (asm) copy_loop.simps)
           (auto simp: Let_def structured_log_def split: sum.splits dest!: mark_conn_dead_pos)
    qed
  qed
qed



lemma flush_batch_tail:
  assumes nonempty: "current_batch_pos ctx \<noteq> 0"
    and g: "get_connection env ctx = (Some h, ctx1)"
    and started: "begin_ok env" "copy_start_ok env"
    and loop: "copy_loop env (Some h) 0 0 0 ctx1 = Inr (tw, w, ctx2)"
  shows "outputs_of (flush_batch env ctx p0 f0) = None
       \<or> outputs_of (flush_batch env ctx p0 f0) =
           Some (w \<and> PQputCopyEnd_ok env \<and> commit_ok env, tw,
                 if w \<and> PQputCopyEnd_ok env \<and> commit_ok env then 0
                 else current_batch_pos ctx2 - tw)"
  using assms
  by (cases w; cases "PQputCopyEnd_ok env"; cases "commit_ok env")
     (simp_all add: flush_batch_def Let_def outputs_of_def structured_log_def
        split: sum.splits)

lemma flush_batch_outputs:
  assumes nonempty: "current_batch_pos ctx \<noteq> 0"
  shows "(fst (get_connection env ctx) = None \<longrightarrow>
            outputs_of (flush_batch env ctx p0 f0) = Some (False, p0, f0))
       \<and> (fst (get_connection env ctx) \<noteq> None \<longrightarrow>
            outputs_of (flush_batch env ctx p0 f0) = outputs_of (flush_batch env ctx p1 f1))
       \<and> (fst (get_connection env ctx) \<noteq> None \<and> begin_ok env \<and> copy_start_ok env \<longrightarrow>
            (\<forall>ok p f. outputs_of (flush_batch env ctx p0 f0) = Some (ok, p, f) \<longrightarrow>
               f = (if ok then 0 else current_batch_pos ctx - p)))"
proof -
  obtain c ctx1 where g: "get_connection env ctx = (c, ctx1)"
    by (cases "get_connection env ctx")
  have pos1: "current_batch_pos ctx1 = current_batch_pos ctx"
    using get_connection_pos [of env ctx] g by simp
  show ?thesis
  proof (cases c)
    case None
    then show ?thesis
      using nonempty g by (simp add: flush_batch_def outputs_of_def)
  next
    case (Some h)
    have same: "flush_batch env ctx p0 f0 = flush_batch env ctx p1 f1"
      using nonempty g Some by (simp add: flush_batch_def)
    have tail: "f = (if ok then 0 else current_batch_pos ctx - p)"
      if started: "begin_ok env" "copy_start_ok env"
        and out: "outputs_of (flush_batch env ctx p0 f0) = Some (ok, p, f)" for ok p f
    proof (cases "copy_loop env (Some h) 0 0 0 ctx1")
      case (Inl e)
      then show ?thesis
        using nonempty g Some started out by (simp add: flush_batch_def outputs_of_def)
    next
      case (Inr r)
      obtain tw w ctx2 where r: "r = (tw, w, ctx2)" by (cases r) auto
      have pos2: "current_batch_pos ctx2 = current_batch_pos ctx"
        using copy_loop_pos [of env "Some h" 0 0 0 ctx1 tw w ctx2] Inr r pos1 by simp
      show ?thesis
        using flush_batch_tail [OF nonempty g [unfolded Some] started Inr [unfolded r],
                of p0 f0] out pos2
        by auto
    qed
    show ?thesis using g Some same tail by auto
  qed
qed

subsection \<open>Acquisition and the shutdown flag\<close>

text \<open>\<open>get_connection\<close> and what it calls carry the shutdown flag along without reading it.\<close>

lemma recover_shutdown_flag:
  "recover_dead_connection env (ctx\<lparr>shutdown_requested := b\<rparr>) i =
     (fst (recover_dead_connection env ctx i),
      (snd (recover_dead_connection env ctx i))\<lparr>shutdown_requested := b\<rparr>)"
  by (simp add: recover_dead_connection_def Let_def set_slot_def structured_log_def)

lemma second_pass_shutdown_flag:
  "second_pass env js (ctx\<lparr>shutdown_requested := b\<rparr>) =
     (fst (second_pass env js ctx), (snd (second_pass env js ctx))\<lparr>shutdown_requested := b\<rparr>)"
proof (induction js arbitrary: ctx)
  case Nil
  show ?case by simp
next
  case (Cons i js)
  show ?case
  proof (cases "state (pool ctx ! i) = CONN_DEAD")
    case False
    then show ?thesis using Cons.IH [of ctx] by simp
  next
    case True
    obtain ok ctx' where r: "recover_dead_connection env ctx i = (ok, ctx')"
      by (cases "recover_dead_connection env ctx i")
    show ?thesis
      using True r Cons.IH [of ctx'] by (cases ok) (simp_all add: recover_shutdown_flag)
  qed
qed

lemma take_slot_shutdown_flag:
  "take_slot env (ctx\<lparr>shutdown_requested := b\<rparr>) i =
     (fst (take_slot env ctx i), (snd (take_slot env ctx i))\<lparr>shutdown_requested := b\<rparr>)"
  by (simp add: take_slot_def Let_def set_slot_def)

lemma wait_loop_shutdown_flag:
  "wait_loop env ws (ctx\<lparr>shutdown_requested := b\<rparr>) =
     (fst (wait_loop env ws ctx), (snd (wait_loop env ws ctx))\<lparr>shutdown_requested := b\<rparr>)"
proof (induction ws arbitrary: ctx)
  case Nil
  show ?case by simp
next
  case (Cons w ws)
  let ?c = "ctx\<lparr>pool := w (pool ctx)\<rparr>"
  have swap: "ctx\<lparr>shutdown_requested := b, pool := w (pool ctx)\<rparr>
                = ?c\<lparr>shutdown_requested := b\<rparr>" by simp
  have ih: "wait_loop env ws (ctx\<lparr>shutdown_requested := b, pool := w (pool ctx)\<rparr>) =
              (fst (wait_loop env ws ?c), (snd (wait_loop env ws ?c))\<lparr>shutdown_requested := b\<rparr>)"
    unfolding swap by (rule Cons.IH)
  have ts: "take_slot env (ctx\<lparr>shutdown_requested := b, pool := w (pool ctx)\<rparr>) i =
              (fst (take_slot env ?c i), (snd (take_slot env ?c i))\<lparr>shutdown_requested := b\<rparr>)"
    for i unfolding swap by (rule take_slot_shutdown_flag)
  show ?case
    by (simp add: Let_def ih ts split: option.splits)
qed

lemma get_connection_shutdown_flag:
  "get_connection env (ctx\<lparr>shutdown_requested := b\<rparr>) =
     (fst (get_connection env ctx), (snd (get_connection env ctx))\<lparr>shutdown_requested := b\<rparr>)"
proof (cases "first_index (available_ok env) (take MAX_POOL_SIZE (pool ctx))")
  case (Some i)
  then show ?thesis by (simp add: get_connection_def take_slot_shutdown_flag)
next
  case None
  obtain r ctx' where sp: "second_pass env [0..<MAX_POOL_SIZE] ctx = (r, ctx')"
    by (cases "second_pass env [0..<MAX_POOL_SIZE] ctx")
  show ?thesis
    using None sp
    by (cases r)
       (simp_all add: get_connection_def second_pass_shutdown_flag take_slot_shutdown_flag
          wait_loop_shutdown_flag)
qed


text \<open>A scan that finds a slot finds one whose handle is not null.\<close>

lemma first_index_Some: "first_index P xs = Some i \<Longrightarrow> i < length xs \<and> P (xs ! i)"
proof (induction xs arbitrary: i)
  case Nil
  then show ?case by simp
next
  case (Cons x xs)
  then show ?case by (cases "P x") auto
qed

lemma take_slot_handle:
  assumes "first_index (available_ok env) (take MAX_POOL_SIZE (pool c)) = Some i"
  shows "fst (take_slot env c i) \<noteq> None"
proof -
  have fi: "i < length (take MAX_POOL_SIZE (pool c))
            \<and> available_ok env (take MAX_POOL_SIZE (pool c) ! i)"
    by (rule first_index_Some [OF assms])
  then have "i < MAX_POOL_SIZE" by simp
  then have "take MAX_POOL_SIZE (pool c) ! i = pool c ! i" by simp
  then have "conn_ok env (conn (pool c ! i))" using fi by (simp add: available_ok_def)
  then have "conn (pool c ! i) \<noteq> None" by (cases "conn (pool c ! i)") (simp_all add: conn_ok_def)
  then show ?thesis by (simp add: take_slot_def Let_def)
qed

text \<open>The wait loop ends with the null handle exactly when no rescan finds a slot.\<close>

lemma wait_loop_null_iff:
  "fst (wait_loop env ws c) = None \<longleftrightarrow>
     (\<forall>p \<in> set (pools_seen ws (pool c)).
        first_index (available_ok env) (take MAX_POOL_SIZE p) = None)"
proof (induction ws arbitrary: c)
  case Nil
  show ?case by simp
next
  case (Cons w ws)
  let ?c = "c\<lparr>pool := w (pool c)\<rparr>"
  show ?case
  proof (cases "first_index (available_ok env) (take MAX_POOL_SIZE (w (pool c)))")
    case None
    then show ?thesis using Cons.IH [of ?c] by (simp add: Let_def)
  next
    case (Some i)
    then have "first_index (available_ok env) (take MAX_POOL_SIZE (pool ?c)) = Some i"
      by simp
    then have "fst (take_slot env ?c i) \<noteq> None" by (rule take_slot_handle)
    then show ?thesis using Some by (simp add: Let_def)
  qed
qed

text \<open>
  C7, as the claim states it: \<open>get_connection\<close> returns the null handle only after the
  shutdown flag has been seen set.  With every slot in use and the wait expiring it
  returns null while the flag is false, and the flag is still false afterwards.
\<close>

theorem get_connection_null_without_shutdown:
  "\<not> shutdown_requested busy_ctx
   \<and> fst (get_connection demo_env busy_ctx) = None
   \<and> \<not> shutdown_requested (snd (get_connection demo_env busy_ctx))"
  by (simp add: busy_ctx_def eval_defs)

text \<open>
  C7, amended.  \<open>get_connection\<close> does not consult the shutdown flag: it returns the same
  handle whether the flag is set or not.  When the first pass finds no slot and the
  recovery pass recovers none, it returns the null handle as soon as the one-second wait
  expires: at once when the timed wait returns \<open>ETIMEDOUT\<close> first, and otherwise after
  the wake-ups before the deadline, each of which rescans the pool and, finding no slot,
  waits again for the same deadline; a rescan that finds a slot returns its handle.  The
  wait is not renewed.
\<close>

theorem get_connection_ignores_shutdown:
  "fst (get_connection env (ctx\<lparr>shutdown_requested := b\<rparr>)) = fst (get_connection env ctx)
   \<and> (first_index (available_ok env) (take MAX_POOL_SIZE (pool ctx)) = None
        \<and> fst (second_pass env [0..<MAX_POOL_SIZE] ctx) = None
        \<and> wakeups env = []
      \<longrightarrow> fst (get_connection env ctx) = None)
   \<and> (first_index (available_ok env) (take MAX_POOL_SIZE (pool ctx)) = None
        \<and> fst (second_pass env [0..<MAX_POOL_SIZE] ctx) = None
      \<longrightarrow> (fst (get_connection env ctx) = None \<longleftrightarrow>
             (\<forall>p \<in> set (pools_seen (wakeups env)
                          (pool (snd (second_pass env [0..<MAX_POOL_SIZE] ctx)))).
                first_index (available_ok env) (take MAX_POOL_SIZE p) = None)))
   \<and> (first_index (available_ok env) (take MAX_POOL_SIZE (pool ctx)) = None
        \<and> fst (second_pass env [0..<MAX_POOL_SIZE] ctx) = None
      \<longrightarrow> (\<forall>w ws i. wakeups env = w # ws
             \<and> first_index (available_ok env)
                 (take MAX_POOL_SIZE
                    (w (pool (snd (second_pass env [0..<MAX_POOL_SIZE] ctx))))) = Some i
           \<longrightarrow> fst (get_connection env ctx)
                 = conn (w (pool (snd (second_pass env [0..<MAX_POOL_SIZE] ctx))) ! i)))"
proof (intro conjI impI)
  show "fst (get_connection env (ctx\<lparr>shutdown_requested := b\<rparr>)) = fst (get_connection env ctx)"
    by (simp add: get_connection_shutdown_flag)
next
  assume "first_index (available_ok env) (take MAX_POOL_SIZE (pool ctx)) = None
        \<and> fst (second_pass env [0..<MAX_POOL_SIZE] ctx) = None
        \<and> wakeups env = []"
  then show "fst (get_connection env ctx) = None"
    by (auto simp: get_connection_def split: prod.splits option.splits)
next
  assume a: "first_index (available_ok env) (take MAX_POOL_SIZE (pool ctx)) = None
        \<and> fst (second_pass env [0..<MAX_POOL_SIZE] ctx) = None"
  obtain ctx' where sp: "second_pass env [0..<MAX_POOL_SIZE] ctx = (None, ctx')"
    using a by (cases "second_pass env [0..<MAX_POOL_SIZE] ctx") auto
  have "get_connection env ctx = wait_loop env (wakeups env) ctx'"
    using a sp by (simp add: get_connection_def)
  then show "fst (get_connection env ctx) = None \<longleftrightarrow>
             (\<forall>p \<in> set (pools_seen (wakeups env)
                          (pool (snd (second_pass env [0..<MAX_POOL_SIZE] ctx)))).
                first_index (available_ok env) (take MAX_POOL_SIZE p) = None)"
    using sp wait_loop_null_iff [of env "wakeups env" ctx'] by simp
next
  assume a: "first_index (available_ok env) (take MAX_POOL_SIZE (pool ctx)) = None
        \<and> fst (second_pass env [0..<MAX_POOL_SIZE] ctx) = None"
  obtain ctx' where sp: "second_pass env [0..<MAX_POOL_SIZE] ctx = (None, ctx')"
    using a by (cases "second_pass env [0..<MAX_POOL_SIZE] ctx") auto
  have g: "get_connection env ctx = wait_loop env (wakeups env) ctx'"
    using a sp by (simp add: get_connection_def)
  show "\<forall>w ws i. wakeups env = w # ws
             \<and> first_index (available_ok env)
                 (take MAX_POOL_SIZE
                    (w (pool (snd (second_pass env [0..<MAX_POOL_SIZE] ctx))))) = Some i
           \<longrightarrow> fst (get_connection env ctx)
                 = conn (w (pool (snd (second_pass env [0..<MAX_POOL_SIZE] ctx))) ! i)"
    using g sp by (auto simp: Let_def take_slot_def)
qed

theorem get_connection_ignores_shutdown_witness:
  "first_index (available_ok demo_env) (take MAX_POOL_SIZE (pool busy_ctx)) = None
   \<and> fst (second_pass demo_env [0..<MAX_POOL_SIZE] busy_ctx) = None
   \<and> wakeups demo_env = []
   \<and> fst (get_connection demo_env busy_ctx) = None
   \<and> fst (get_connection demo_env (busy_ctx\<lparr>shutdown_requested := True\<rparr>)) = None
   \<and> fst (get_connection spurious_env busy_ctx) = None
   \<and> fst (get_connection release_env busy_ctx) = Some 100
   \<and> fst (get_connection release_env (busy_ctx\<lparr>shutdown_requested := True\<rparr>)) = Some 100"
  using get_connection_ignores_shutdown [where env = demo_env and ctx = busy_ctx and b = True]
        get_connection_ignores_shutdown [where env = spurious_env and ctx = busy_ctx
           and b = True]
        get_connection_ignores_shutdown [where env = release_env and ctx = busy_ctx
           and b = True]
  by (simp add: busy_ctx_def spurious_env_def release_env_def eval_defs)

subsection \<open>The batch capacity after construction\<close>

text \<open>The pool loop of \<open>init_hydrant\<close> leaves the configuration alone and logs no \<open>WARN\<close>.\<close>

lemma init_slot_config: "config (init_slot env ctx i) = config ctx"
  by (simp add: init_slot_def Let_def set_slot_def structured_log_def split: prod.splits)

lemma init_slot_warn:
  "warn_records (stderr_log (init_slot env ctx i)) = warn_records (stderr_log ctx)"
  by (simp add: init_slot_def Let_def set_slot_def structured_log_def warn_records_def
        split: prod.splits)

lemma init_pool_config: "config (init_pool env js ctx) = config ctx"
  by (induction js arbitrary: ctx) (simp_all add: init_slot_config)

lemma init_pool_warn:
  "warn_records (stderr_log (init_pool env js ctx)) = warn_records (stderr_log ctx)"
  by (induction js arbitrary: ctx) (simp_all add: init_slot_warn)

lemma load_config_env:
  assumes "load_config sys None = (lg, Some cfg)"
  shows "lg = []"
    and "batch_size cfg =
           (case getenv_HYDRANT_BATCH_SIZE sys of
              None \<Rightarrow> DEFAULT_BATCH_SIZE
            | Some v \<Rightarrow>
                if MIN_BATCH_SIZE \<le> word_of_int v \<and> word_of_int v \<le> MAX_BATCH_SIZE
                then word_of_int v else DEFAULT_BATCH_SIZE)"
    and "MIN_BATCH_SIZE \<le> batch_size cfg" and "batch_size cfg \<le> MAX_BATCH_SIZE"
  using assms
  by (auto simp: load_config_def default_config_def Let_def MIN_BATCH_SIZE_def
        MAX_BATCH_SIZE_def DEFAULT_BATCH_SIZE_def split: if_splits option.splits)

lemma clamp_in_range:
  assumes "MIN_BATCH_SIZE \<le> batch_size (config ctx)" "batch_size (config ctx) \<le> MAX_BATCH_SIZE"
  shows "clamp_batch_size ctx = ctx"
  using assms by (simp add: clamp_batch_size_def Let_def not_less [symmetric])


lemma init_32k:
  "init_hydrant sys_32k demo_env None = init_hydrant demo_sys demo_env None"
  by (simp add: sys_32k_def init_defs eval_defs)

lemma init_32m:
  "init_hydrant sys_32m demo_env None = init_hydrant demo_sys demo_env None"
  by (simp add: sys_32m_def init_defs eval_defs)

text \<open>
  C8, as the claim states it: an out-of-range \<open>HYDRANT_BATCH_SIZE\<close> is clamped to the bound
  it violates and a \<open>WARN\<close> record is logged.  With 32 KiB and with 32 MiB in the variable
  the capacity after \<open>init_hydrant\<close> is the 1 MiB default, not 64 KiB or 10 MiB, and the
  log has no \<open>WARN\<close> record.
\<close>

theorem out_of_range_batch_size_falls_back_to_default:
  "(case init_hydrant sys_32k demo_env None of
      (lg, None) \<Rightarrow> False
    | (lg, Some ctx) \<Rightarrow>
        batch_size (config ctx) = 1048576 \<and> batch_size (config ctx) \<noteq> MIN_BATCH_SIZE
        \<and> filter (\<lambda>r. fst r = ''WARN'') lg = [])
   \<and> (case init_hydrant sys_32m demo_env None of
      (lg, None) \<Rightarrow> False
    | (lg, Some ctx) \<Rightarrow>
        batch_size (config ctx) = 1048576 \<and> batch_size (config ctx) \<noteq> MAX_BATCH_SIZE
        \<and> filter (\<lambda>r. fst r = ''WARN'') lg = [])"
  unfolding init_32k init_32m init_demo
  by (simp add: demo_ctx_def DEFAULT_BATCH_SIZE_def MIN_BATCH_SIZE_def MAX_BATCH_SIZE_def)

text \<open>
  C8, amended.  When the configuration is loaded from the environment and
  \<open>init_hydrant\<close> succeeds, the batch capacity lies in \<open>[MIN_BATCH_SIZE, MAX_BATCH_SIZE]\<close>;
  it is the value of \<open>HYDRANT_BATCH_SIZE\<close> when that value lies in the range, and the
  1 MiB default when the variable is unset or out of range (the value is ignored, not
  clamped); and no \<open>WARN\<close> record is logged.
\<close>

theorem batch_size_after_init:
  assumes "init_hydrant sys env None = (lg, Some ctx)"
  shows "MIN_BATCH_SIZE \<le> batch_size (config ctx) \<and> batch_size (config ctx) \<le> MAX_BATCH_SIZE
       \<and> batch_size (config ctx) =
           (case getenv_HYDRANT_BATCH_SIZE sys of
              None \<Rightarrow> DEFAULT_BATCH_SIZE
            | Some v \<Rightarrow>
                if MIN_BATCH_SIZE \<le> word_of_int v \<and> word_of_int v \<le> MAX_BATCH_SIZE
                then word_of_int v else DEFAULT_BATCH_SIZE)
       \<and> filter (\<lambda>r. fst r = ''WARN'') lg = []"
proof -
  obtain lg0 cfg where l: "load_config sys None = (lg0, Some cfg)"
    using assms
    by (cases "load_config sys None")
       (auto simp: init_hydrant_def split: if_splits option.splits)
  note lc = load_config_env [OF l]
  let ?ctx0 = "calloc_context cfg lg0"
  have c0: "config ?ctx0 = cfg" "stderr_log ?ctx0 = []"
    using lc(1) by (simp_all add: calloc_context_def)
  have clamp: "clamp_batch_size ?ctx0 = ?ctx0"
    using lc(3,4) c0 by (intro clamp_in_range) simp_all
  let ?ctx2 = "init_pool env [0..<MAX_POOL_SIZE] (?ctx0\<lparr>healthy_connections := 0\<rparr>)"
  have cfg2: "config ?ctx2 = cfg" using c0 by (simp add: init_pool_config)
  have warn2: "warn_records (stderr_log ?ctx2) = []"
    using c0 by (simp add: init_pool_warn) (simp add: warn_records_def)
  have "config ctx = cfg \<and> warn_records lg = []"
    using assms l clamp cfg2 warn2
    by (auto simp: init_hydrant_def Let_def structured_log_def warn_records_def
          split: if_splits)
  then show ?thesis using lc(2,3,4) by (simp add: warn_records_def)
qed

theorem batch_size_after_init_witness:
  "init_hydrant sys_32k demo_env None =
     ([(''INFO'', ''Hydrant initialized successfully with %zu healthy connections'', [Num 10])],
      Some (demo_ctx\<lparr>stderr_log :=
         [(''INFO'', ''Hydrant initialized successfully with %zu healthy connections'',
           [Num 10])]\<rparr>))
   \<and> getenv_HYDRANT_BATCH_SIZE sys_32k = Some 32768
   \<and> \<not> MIN_BATCH_SIZE \<le> (word_of_int 32768 :: size_t)
   \<and> batch_size (config demo_ctx) = DEFAULT_BATCH_SIZE
   \<and> MIN_BATCH_SIZE \<le> batch_size (config demo_ctx)
   \<and> batch_size (config demo_ctx) \<le> MAX_BATCH_SIZE"
proof -
  have i: "init_hydrant sys_32k demo_env None =
     ([(''INFO'', ''Hydrant initialized successfully with %zu healthy connections'', [Num 10])],
      Some (demo_ctx\<lparr>stderr_log :=
         [(''INFO'', ''Hydrant initialized successfully with %zu healthy connections'',
           [Num 10])]\<rparr>))"
    unfolding init_32k by (rule init_demo)
  have g: "getenv_HYDRANT_BATCH_SIZE sys_32k = Some 32768"
    by (simp add: sys_32k_def demo_sys_def)
  have n: "\<not> MIN_BATCH_SIZE \<le> (word_of_int 32768 :: size_t)"
    by (simp add: MIN_BATCH_SIZE_def)
  show ?thesis
    using batch_size_after_init [OF i] i g n by auto
qed

end
